theory Spec2Isabelle
  imports Main
begin

section \<open>The NFTMarketplace contract\<close>

text \<open>
  A shallow embedding of the Solidity contract \<open>NFTMarketplace\<close> (the contract text that
  follows the hardhat tests in \<open>src/test/NFTMarket.js\<close>).

  \<^item> \<open>uint256\<close> values are natural numbers; the bound \<open>2^256\<close> is not modelled. The
    contract is compiled with Solidity 0.8.9, whose arithmetic is checked; the only
    subtraction of the contract (\<open>fetchMarketItems\<close>) is modelled with its panic.
  \<^item> A transaction that reverts leaves no trace: an operation returns either the revert
    reason (\<open>Inl\<close>) or the state after it (\<open>Inr\<close>).
  \<^item> The ether of the contract is the field \<open>balance\<close>; the value attached to a call of a
    payable function is credited on entry, and every \<open>payable(a).transfer(v)\<close> is
    recorded, in order, in the field \<open>transfers\<close>.
  \<^item> The token balances of \<open>ERC721\<close> (\<open>_balances\<close>) and the events are left out: no
    function of the contract reads them.
\<close>

subsection \<open>Addresses\<close>

text \<open>
  \<open>address(0)\<close>, \<open>address(this)\<close> and the other accounts. The sender of an external
  transaction is always an \<open>Account\<close>: the contract never calls itself, and nobody holds the
  key of the zero address.
\<close>

datatype address = Address0 | AddressThis | Account nat

subsection \<open>Storage\<close>

record MarketItem =
  tokenId :: nat
  seller :: address
  owner :: address
  price :: nat
  sold :: bool

text \<open>The value a Solidity mapping holds at a key that was never written.\<close>

definition zero_item :: MarketItem where
  "zero_item = \<lparr>tokenId = 0, seller = Address0, owner = Address0, price = 0, sold = False\<rparr>"

text \<open>
  The state variables of the contract. \<open>marketOwner\<close> is the state variable \<open>owner\<close> of
  the source (renamed: \<open>owner\<close> is also a field of \<open>MarketItem\<close>). \<open>owners\<close>,
  \<open>tokenApprovals\<close>, \<open>operatorApprovals\<close> and \<open>tokenURIs\<close> are the tables \<open>_owners\<close>,
  \<open>_tokenApprovals\<close>, \<open>_operatorApprovals\<close> and \<open>_tokenURIs\<close> of the inherited
  \<open>ERC721URIStorage\<close>.
\<close>

record contract =
  tokenIds :: nat
  itemsSold :: nat
  listingPrice :: nat
  marketOwner :: address
  idToMarketItem :: "nat \<Rightarrow> MarketItem"
  owners :: "nat \<Rightarrow> address"
  tokenApprovals :: "nat \<Rightarrow> address"
  operatorApprovals :: "address \<Rightarrow> address \<Rightarrow> bool"
  tokenURIs :: "nat \<Rightarrow> string"
  balance :: nat
  transfers :: "(address \<times> nat) list"

text \<open>The reasons for which a call reverts, one for each \<open>require\<close> of the source, and
  those of the imported library and of the language.\<close>

datatype revert =
    OnlyMarketplaceOwner        \<comment> \<open>"Only marketplace owner can update listing price"\<close>
  | PriceMustBeGreaterThanZero  \<comment> \<open>"Price must be greater than zero"\<close>
  | PriceMustEqualListingPrice  \<comment> \<open>"Price must be equal to listing price"\<close>
  | SubmitAskingPrice           \<comment> \<open>"Please submit the asking price in order to complete the purchase"\<close>
  | OnlyItemOwner               \<comment> \<open>"Only item owner can perform this operation"\<close>
  | OnlyItemSeller              \<comment> \<open>"Only item seller can perform this operation"\<close>
  | OnlyCancelUnsold            \<comment> \<open>"Only cancel items which are not sold yet"\<close>
  | ERC721NonexistentToken      \<comment> \<open>the token was never minted\<close>
  | ERC721IncorrectOwner        \<comment> \<open>"ERC721: transfer from incorrect owner"\<close>
  | ERC721ZeroAddress           \<comment> \<open>mint or transfer to the zero address\<close>
  | ERC721AlreadyMinted         \<comment> \<open>"ERC721: token already minted"\<close>
  | ERC721NotApproved           \<comment> \<open>the caller is neither the holder nor approved\<close>
  | ERC721ApprovalToOwner       \<comment> \<open>"ERC721: approval to current owner"\<close>
  | ERC721ApproveToCaller       \<comment> \<open>"ERC721: approve to caller"\<close>
  | ERC721NonReceiver           \<comment> \<open>"ERC721: transfer to non ERC721Receiver implementer"\<close>
  | CounterDecrementOverflow    \<comment> \<open>"Counter: decrement overflow"\<close>
  | EtherTransferFailed         \<comment> \<open>\<open>transfer\<close> of more than the contract holds\<close>
  | PanicArithmetic             \<comment> \<open>checked arithmetic, Panic(0x11)\<close>
  | PanicIndex                  \<comment> \<open>array index out of bounds, Panic(0x32)\<close>

subsection \<open>The imported library\<close>

text \<open>
  The contract imports \<open>Counters.sol\<close>, \<open>ERC721.sol\<close> and \<open>ERC721URIStorage.sol\<close> of
  the OpenZeppelin library, which are not among the sources. What the contract uses of
  them, and the public functions it inherits from them, are modelled here;
  \<open>Counters.increment\<close> is written \<open>+ 1\<close> where it is called.
\<close>

text \<open>
  Modelled from the spec: \<open>Counters.decrement\<close>, missing from the sources. The spec's
  \<open>removedCount\<close> is "decremented on resell"; the library reverts at zero instead of
  wrapping around.
\<close>

definition Counter_decrement :: "nat \<Rightarrow> revert + nat" where
  "Counter_decrement v = (if v > 0 then Inr (v - 1) else Inl CounterDecrementOverflow)"

text \<open>
  Modelled from the spec: \<open>ERC721.ownerOf\<close>, missing from the sources. The holder of the
  item (the spec's "custody of the underlying item"); the library reverts for a token that
  was never minted.
\<close>

definition ERC721_ownerOf :: "contract \<Rightarrow> nat \<Rightarrow> revert + address" where
  "ERC721_ownerOf s t =
     (if owners s t = Address0 then Inl ERC721NonexistentToken else Inr (owners s t))"

text \<open>
  Modelled from the spec: \<open>ERC721._mint\<close>, missing from the sources. It creates the
  item in the custody of the caller ("minting and listing are combined into one call");
  the library reverts for the zero address and for a token that exists.
\<close>

definition ERC721_mint :: "contract \<Rightarrow> address \<Rightarrow> nat \<Rightarrow> revert + contract" where
  "ERC721_mint s to t =
     (if to = Address0 then Inl ERC721ZeroAddress
      else if owners s t \<noteq> Address0 then Inl ERC721AlreadyMinted
      else Inr (s\<lparr>owners := (owners s)(t := to)\<rparr>))"

text \<open>
  Modelled from the spec: \<open>ERC721URIStorage._setTokenURI\<close>, missing from the sources. It
  stores the "caller-supplied URI string verbatim"; the library reverts for a token that
  does not exist.
\<close>

definition ERC721_setTokenURI :: "contract \<Rightarrow> nat \<Rightarrow> string \<Rightarrow> revert + contract" where
  "ERC721_setTokenURI s t uri =
     (if owners s t = Address0 then Inl ERC721NonexistentToken
      else Inr (s\<lparr>tokenURIs := (tokenURIs s)(t := uri)\<rparr>))"

text \<open>
  Modelled from the spec: \<open>ERC721._transfer\<close>, missing from the sources. It moves the
  custody of the item from \<open>from\<close> to \<open>to\<close>; the library reverts when the token does
  not exist, when \<open>from\<close> does not hold it and when \<open>to\<close> is the zero address, and it
  clears the approval of the token.
\<close>

definition ERC721_transfer :: "contract \<Rightarrow> address \<Rightarrow> address \<Rightarrow> nat \<Rightarrow> revert + contract" where
  "ERC721_transfer s from to t =
     (case ERC721_ownerOf s t of
        Inl e \<Rightarrow> Inl e
      | Inr holder \<Rightarrow>
          if holder \<noteq> from then Inl ERC721IncorrectOwner
          else if to = Address0 then Inl ERC721ZeroAddress
          else Inr (s\<lparr>tokenApprovals := (tokenApprovals s)(t := Address0),
                     owners := (owners s)(t := to)\<rparr>))"

text \<open>
  The contract is an \<open>ERC721\<close>: the public functions of the token standard are entry
  points of it as much as the functions it declares. None of them is payable.
\<close>

text \<open>
  Modelled after the imported library: \<open>ERC721._isApprovedOrOwner\<close>, missing from the sources. Who
  may move the item out of its holder's custody: the holder, an operator the holder
  approved for all its tokens, and the account approved for this token.
\<close>

definition ERC721_isApprovedOrOwner :: "contract \<Rightarrow> address \<Rightarrow> nat \<Rightarrow> revert + bool" where
  "ERC721_isApprovedOrOwner s spender t =
     (case ERC721_ownerOf s t of
        Inl e \<Rightarrow> Inl e
      | Inr holder \<Rightarrow>
          Inr (spender = holder \<or> operatorApprovals s holder spender \<or>
               tokenApprovals s t = spender))"

text \<open>
  Modelled after the imported library: \<open>ERC721.approve\<close>, missing from the sources. The holder of a
  token, or an operator of the holder, names the account approved for the token.
\<close>

definition approve :: "contract \<Rightarrow> address \<Rightarrow> nat \<Rightarrow> address \<Rightarrow> revert + contract" where
  "approve s to t msg_sender =
     (case ERC721_ownerOf s t of
        Inl e \<Rightarrow> Inl e
      | Inr holder \<Rightarrow>
          if to = holder then Inl ERC721ApprovalToOwner
          else if \<not> (msg_sender = holder \<or> operatorApprovals s holder msg_sender)
          then Inl ERC721NotApproved
          else Inr (s\<lparr>tokenApprovals := (tokenApprovals s)(t := to)\<rparr>))"

text \<open>
  Modelled after the imported library: \<open>ERC721.setApprovalForAll\<close>, missing from the sources. The
  caller approves an operator for all its tokens, or withdraws the approval.
\<close>

definition setApprovalForAll :: "contract \<Rightarrow> address \<Rightarrow> bool \<Rightarrow> address \<Rightarrow> revert + contract" where
  "setApprovalForAll s operator approved msg_sender =
     (if msg_sender = operator then Inl ERC721ApproveToCaller
      else Inr (s\<lparr>operatorApprovals :=
                   (operatorApprovals s)
                     (msg_sender := (operatorApprovals s msg_sender)(operator := approved))\<rparr>))"

text \<open>
  Modelled after the imported library: \<open>ERC721.transferFrom\<close>, missing from the sources. The holder of
  a token, or somebody it approved, moves the custody of the item to any account, the
  contract included.
\<close>

definition transferFrom :: "contract \<Rightarrow> address \<Rightarrow> address \<Rightarrow> nat \<Rightarrow> address \<Rightarrow> revert + contract" where
  "transferFrom s from to t msg_sender =
     (case ERC721_isApprovedOrOwner s msg_sender t of
        Inl e \<Rightarrow> Inl e
      | Inr allowed \<Rightarrow>
          if \<not> allowed then Inl ERC721NotApproved
          else ERC721_transfer s from to t)"

text \<open>
  Modelled after the imported library: \<open>ERC721.safeTransferFrom\<close>, missing from the sources. As
  \<open>transferFrom\<close>, but a contract that receives the token must implement
  \<open>onERC721Received\<close>: this contract does not, and the other accounts are taken to be
  plain accounts.
\<close>

definition safeTransferFrom :: "contract \<Rightarrow> address \<Rightarrow> address \<Rightarrow> nat \<Rightarrow> address \<Rightarrow> revert + contract" where
  "safeTransferFrom s from to t msg_sender =
     (case transferFrom s from to t msg_sender of
        Inl e \<Rightarrow> Inl e
      | Inr s' \<Rightarrow> if to = AddressThis then Inl ERC721NonReceiver else Inr s')"

subsection \<open>Ether\<close>

text \<open>Entering a payable function with \<open>msg.value\<close> attached.\<close>

definition receive_value :: "contract \<Rightarrow> nat \<Rightarrow> contract" where
  "receive_value s msg_value = s\<lparr>balance := balance s + msg_value\<rparr>"

text \<open>
  \<open>payable(to).transfer(amount)\<close>: reverts when the contract holds less. The recipient is
  taken to accept the ether.
\<close>

definition payable_transfer :: "contract \<Rightarrow> address \<Rightarrow> nat \<Rightarrow> revert + contract" where
  "payable_transfer s to amount =
     (if balance s < amount then Inl EtherTransferFailed
      else Inr (s\<lparr>balance := balance s - amount, transfers := transfers s @ [(to, amount)]\<rparr>))"

subsection \<open>The operations\<close>

text \<open>The constructor: \<open>listingPrice = 0.001 ether\<close>, \<open>owner = msg.sender\<close>.\<close>

definition constructor :: "address \<Rightarrow> contract" where
  "constructor msg_sender =
     \<lparr>tokenIds = 0, itemsSold = 0, listingPrice = 1000000000000000,
      marketOwner = msg_sender, idToMarketItem = (\<lambda>_. zero_item),
      owners = (\<lambda>_. Address0), tokenApprovals = (\<lambda>_. Address0),
      operatorApprovals = (\<lambda>_ _. False), tokenURIs = (\<lambda>_. []), balance = 0,
      transfers = []\<rparr>"

definition getListingPrice :: "contract \<Rightarrow> nat" where
  "getListingPrice s = listingPrice s"

definition updateListingPrice :: "contract \<Rightarrow> nat \<Rightarrow> nat \<Rightarrow> address \<Rightarrow> revert + contract" where
  "updateListingPrice s0 new_listingPrice msg_value msg_sender =
     (let s = receive_value s0 msg_value in
      if marketOwner s \<noteq> msg_sender then Inl OnlyMarketplaceOwner
      else Inr (s\<lparr>listingPrice := new_listingPrice\<rparr>))"

text \<open>\<open>createMarketItem\<close> is private: it runs inside \<open>createToken\<close>, whose value it sees.\<close>

definition createMarketItem :: "contract \<Rightarrow> nat \<Rightarrow> nat \<Rightarrow> nat \<Rightarrow> address \<Rightarrow> revert + contract" where
  "createMarketItem s t new_price msg_value msg_sender =
     (if \<not> new_price > 0 then Inl PriceMustBeGreaterThanZero
      else if msg_value \<noteq> listingPrice s then Inl PriceMustEqualListingPrice
      else ERC721_transfer
             (s\<lparr>idToMarketItem := (idToMarketItem s)
                  (t := \<lparr>tokenId = t, seller = msg_sender, owner = AddressThis,
                         price = new_price, sold = False\<rparr>)\<rparr>)
             msg_sender AddressThis t)"

definition createToken :: "contract \<Rightarrow> string \<Rightarrow> nat \<Rightarrow> nat \<Rightarrow> address \<Rightarrow> revert + contract \<times> nat" where
  "createToken s0 tokenURI new_price msg_value msg_sender =
     (let s1 = receive_value s0 msg_value;
          s2 = s1\<lparr>tokenIds := tokenIds s1 + 1\<rparr>;
          newTokenId = tokenIds s2
      in case ERC721_mint s2 msg_sender newTokenId of
           Inl e \<Rightarrow> Inl e
         | Inr s3 \<Rightarrow>
            (case ERC721_setTokenURI s3 newTokenId tokenURI of
               Inl e \<Rightarrow> Inl e
             | Inr s4 \<Rightarrow>
                (case createMarketItem s4 newTokenId new_price msg_value msg_sender of
                   Inl e \<Rightarrow> Inl e
                 | Inr s5 \<Rightarrow> Inr (s5, newTokenId))))"

definition createMarketSale :: "contract \<Rightarrow> nat \<Rightarrow> nat \<Rightarrow> address \<Rightarrow> revert + contract" where
  "createMarketSale s0 t msg_value msg_sender =
     (let s = receive_value s0 msg_value;
          asked = price (idToMarketItem s t);
          payee = seller (idToMarketItem s t)
      in if msg_value \<noteq> asked then Inl SubmitAskingPrice
         else
           let s1 = s\<lparr>idToMarketItem := (idToMarketItem s)
                        (t := (idToMarketItem s t)
                                \<lparr>owner := msg_sender, sold := True, seller := Address0\<rparr>),
                      itemsSold := itemsSold s + 1\<rparr>
           in case ERC721_transfer s1 AddressThis msg_sender t of
                Inl e \<Rightarrow> Inl e
              | Inr s2 \<Rightarrow>
                 (case payable_transfer s2 (marketOwner s2) (listingPrice s2) of
                    Inl e \<Rightarrow> Inl e
                  | Inr s3 \<Rightarrow> payable_transfer s3 payee msg_value))"

definition resellToken :: "contract \<Rightarrow> nat \<Rightarrow> nat \<Rightarrow> nat \<Rightarrow> address \<Rightarrow> revert + contract" where
  "resellToken s0 t new_price msg_value msg_sender =
     (let s = receive_value s0 msg_value
      in if owner (idToMarketItem s t) \<noteq> msg_sender then Inl OnlyItemOwner
         else if msg_value \<noteq> listingPrice s then Inl PriceMustEqualListingPrice
         else
           case Counter_decrement (itemsSold s) of
             Inl e \<Rightarrow> Inl e
           | Inr n \<Rightarrow>
               ERC721_transfer
                 (s\<lparr>idToMarketItem := (idToMarketItem s)
                      (t := (idToMarketItem s t)
                              \<lparr>sold := False, price := new_price,
                               seller := msg_sender, owner := AddressThis\<rparr>),
                    itemsSold := n\<rparr>)
                 msg_sender AddressThis t)"

text \<open>\<open>cancelItemListing\<close> is not payable: no value can be attached to it.\<close>

definition cancelItemListing :: "contract \<Rightarrow> nat \<Rightarrow> address \<Rightarrow> revert + contract" where
  "cancelItemListing s t msg_sender =
     (if seller (idToMarketItem s t) \<noteq> msg_sender then Inl OnlyItemSeller
      else if sold (idToMarketItem s t) \<noteq> False then Inl OnlyCancelUnsold
      else
        let s1 = s\<lparr>idToMarketItem := (idToMarketItem s)
                     (t := (idToMarketItem s t)
                             \<lparr>owner := msg_sender, seller := Address0, sold := True\<rparr>),
                   itemsSold := itemsSold s + 1\<rparr>
        in case payable_transfer s1 (marketOwner s1) (listingPrice s1) of
             Inl e \<Rightarrow> Inl e
           | Inr s2 \<Rightarrow> ERC721_transfer s2 AddressThis msg_sender t)"

subsection \<open>The queries\<close>

text \<open>
  The three queries share their loops. The counting loop
  \<open>for (i = 0; i < n; i++) if (P(idToMarketItem[i+1])) itemCount += 1\<close>:
\<close>

definition count_loop :: "contract \<Rightarrow> (MarketItem \<Rightarrow> bool) \<Rightarrow> nat \<Rightarrow> nat" where
  "count_loop s P n =
     fold (\<lambda>i itemCount. if P (idToMarketItem s (i + 1)) then itemCount + 1 else itemCount)
       [0..<n] 0"

text \<open>
  One round of the filling loop: \<open>items[currentIndex] = idToMarketItem[i+1]\<close>,
  \<open>currentIndex += 1\<close> when the record matches. A write past the end of the memory
  array panics.
\<close>

definition fill_step ::
  "contract \<Rightarrow> (MarketItem \<Rightarrow> bool) \<Rightarrow> nat \<Rightarrow> revert + MarketItem list \<times> nat
     \<Rightarrow> revert + MarketItem list \<times> nat" where
  "fill_step s P i acc =
     (case acc of
        Inl e \<Rightarrow> Inl e
      | Inr (items, currentIndex) \<Rightarrow>
          if P (idToMarketItem s (i + 1)) then
            (if currentIndex < length items
             then Inr (items[currentIndex := idToMarketItem s (i + 1)], currentIndex + 1)
             else Inl PanicIndex)
          else Inr (items, currentIndex))"

text \<open>The filling loop over a fresh array \<open>new MarketItem[](len)\<close>.\<close>

definition fill_loop :: "contract \<Rightarrow> (MarketItem \<Rightarrow> bool) \<Rightarrow> nat \<Rightarrow> nat \<Rightarrow> revert + MarketItem list" where
  "fill_loop s P n len =
     (case fold (fill_step s P) [0..<n] (Inr (replicate len zero_item, 0)) of
        Inl e \<Rightarrow> Inl e
      | Inr (items, currentIndex) \<Rightarrow> Inr items)"

definition fetchMarketItems :: "contract \<Rightarrow> revert + MarketItem list" where
  "fetchMarketItems s =
     (let itemCount = tokenIds s
      in if tokenIds s < itemsSold s then Inl PanicArithmetic
         else
           let unsoldItemCount = tokenIds s - itemsSold s
           in fill_loop s (\<lambda>m. owner m = AddressThis) itemCount unsoldItemCount)"

definition fetchMyNFTs :: "contract \<Rightarrow> address \<Rightarrow> revert + MarketItem list" where
  "fetchMyNFTs s msg_sender =
     (let totalItemCount = tokenIds s;
          itemCount = count_loop s (\<lambda>m. owner m = msg_sender) totalItemCount
      in fill_loop s (\<lambda>m. owner m = msg_sender) totalItemCount itemCount)"

definition fetchItemsListed :: "contract \<Rightarrow> address \<Rightarrow> revert + MarketItem list" where
  "fetchItemsListed s msg_sender =
     (let totalItemCount = tokenIds s;
          itemCount = count_loop s (\<lambda>m. seller m = msg_sender) totalItemCount
      in fill_loop s (\<lambda>m. seller m = msg_sender) totalItemCount itemCount)"

subsection \<open>Sequences of transactions\<close>

text \<open>
  A state-changing call: one of the five functions the contract declares, with its
  arguments and, last, the value attached, or one of the transfer and approval functions
  it inherits from \<open>ERC721\<close>.
\<close>

datatype call =
    CreateToken string nat nat
  | CreateMarketSale nat nat
  | ResellToken nat nat nat
  | CancelItemListing nat
  | UpdateListingPrice nat nat
  | Approve address nat
  | SetApprovalForAll address bool
  | TransferFrom address address nat
  | SafeTransferFrom address address nat

fun perform :: "contract \<Rightarrow> address \<Rightarrow> call \<Rightarrow> revert + contract" where
  "perform s a (CreateToken uri p v) = map_sum id fst (createToken s uri p v a)"
| "perform s a (CreateMarketSale t v) = createMarketSale s t v a"
| "perform s a (ResellToken t p v) = resellToken s t p v a"
| "perform s a (CancelItemListing t) = cancelItemListing s t a"
| "perform s a (UpdateListingPrice p v) = updateListingPrice s p v a"
| "perform s a (Approve to t) = approve s to t a"
| "perform s a (SetApprovalForAll operator approved) = setApprovalForAll s operator approved a"
| "perform s a (TransferFrom from to t) = transferFrom s from to t a"
| "perform s a (SafeTransferFrom from to t) = safeTransferFrom s from to t a"

text \<open>A transaction is sent by an account; when it reverts the state is as before.\<close>

fun exec :: "contract \<Rightarrow> nat \<times> call \<Rightarrow> contract" where
  "exec s (a, c) = (case perform s (Account a) c of Inl e \<Rightarrow> s | Inr s' \<Rightarrow> s')"

text \<open>The state after account \<open>d\<close> deployed the contract and the transactions \<open>txs\<close> ran.\<close>

definition run :: "nat \<Rightarrow> (nat \<times> call) list \<Rightarrow> contract" where
  "run d txs = foldl exec (constructor (Account d)) txs"

subsection \<open>Well-formed states\<close>

text \<open>The identifiers allocated so far: \<open>1, \<dots>, _tokenIds.current()\<close>.\<close>

definition ids :: "contract \<Rightarrow> nat list" where
  "ids s = [1..<Suc (tokenIds s)]"

text \<open>
  What every record of a state reached from the constructor satisfies. An allocated
  identifier has a record that carries it; the record is either sold (no seller, owned by
  an account, the token held by somebody) or listed (owned and held by the contract, with
  an account as seller). An identifier never allocated has the zero record and no token.
\<close>

definition item_ok :: "contract \<Rightarrow> nat \<Rightarrow> bool" where
  "item_ok s i =
     (let m = idToMarketItem s i in
      if 1 \<le> i \<and> i \<le> tokenIds s then
        tokenId m = i \<and>
        (if sold m then seller m = Address0 \<and> (\<exists>a. owner m = Account a) \<and>
                        owners s i \<noteq> Address0
         else owner m = AddressThis \<and> (\<exists>a. seller m = Account a) \<and>
              owners s i = AddressThis)
      else m = zero_item \<and> owners s i = Address0)"

text \<open>
  Moreover nobody is approved for a token the contract holds, and the contract has no
  operator: an account cannot move a token out of the contract's custody.
\<close>

definition consistent :: "contract \<Rightarrow> bool" where
  "consistent s \<longleftrightarrow>
     (\<forall>i. item_ok s i) \<and>
     (\<forall>i. owners s i = AddressThis \<longrightarrow> tokenApprovals s i = Address0) \<and>
     (\<forall>x. \<not> operatorApprovals s AddressThis x)"

text \<open>The records among \<open>1, \<dots>, n\<close> that satisfy \<open>P\<close>, in the order of their identifiers.\<close>

definition matching :: "contract \<Rightarrow> (MarketItem \<Rightarrow> bool) \<Rightarrow> nat \<Rightarrow> MarketItem list" where
  "matching s P n = map (idToMarketItem s) (filter (\<lambda>i. P (idToMarketItem s i)) [1..<Suc n])"

subsection \<open>Sample runs\<close>

text \<open>
  Account 0 deploys the contract. Account 1 lists an item at \<open>0.005 ether\<close>, paying the
  listing price of \<open>0.001 ether\<close>.
\<close>

definition listed :: contract where
  "listed = run 0 [(1, CreateToken ''ipfs://a'' 5000000000000000 1000000000000000)]"

text \<open>Then account 2 buys it.\<close>

definition bought :: contract where
  "bought = run 0 [(1, CreateToken ''ipfs://a'' 5000000000000000 1000000000000000),
                   (2, CreateMarketSale 1 5000000000000000)]"

text \<open>Then account 2 lists it again, at price 0.\<close>

definition resold_free :: contract where
  "resold_free = run 0 [(1, CreateToken ''ipfs://a'' 5000000000000000 1000000000000000),
                        (2, CreateMarketSale 1 5000000000000000),
                        (2, ResellToken 1 0 1000000000000000)]"

text \<open>Or, after the listing, the deployer doubles the listing price.\<close>

definition fee_raised :: contract where
  "fee_raised = run 0 [(1, CreateToken ''ipfs://a'' 5000000000000000 1000000000000000),
                       (0, UpdateListingPrice 2000000000000000 0)]"

text \<open>
  Account 1 lists two items; account 2 buys the first and hands the token back to the
  contract with \<open>transferFrom\<close>.
\<close>

definition handed_back :: contract where
  "handed_back = run 0 [(1, CreateToken ''ipfs://a'' 5000000000000000 1000000000000000),
                        (1, CreateToken ''ipfs://b'' 5000000000000000 1000000000000000),
                        (2, CreateMarketSale 1 5000000000000000),
                        (2, TransferFrom (Account 2) AddressThis 1)]"

text \<open>Then account 3 buys the first item, which no one has listed again.\<close>

definition bought_twice :: contract where
  "bought_twice = run 0 [(1, CreateToken ''ipfs://a'' 5000000000000000 1000000000000000),
                         (1, CreateToken ''ipfs://b'' 5000000000000000 1000000000000000),
                         (2, CreateMarketSale 1 5000000000000000),
                         (2, TransferFrom (Account 2) AddressThis 1),
                         (3, CreateMarketSale 1 5000000000000000)]"

text \<open>
  Then account 4 lists a third item, and account 5 buys it and lists it again at 7 wei.
\<close>

definition relisted_after :: contract where
  "relisted_after = run 0 [(1, CreateToken ''ipfs://a'' 5000000000000000 1000000000000000),
                           (1, CreateToken ''ipfs://b'' 5000000000000000 1000000000000000),
                           (2, CreateMarketSale 1 5000000000000000),
                           (2, TransferFrom (Account 2) AddressThis 1),
                           (3, CreateMarketSale 1 5000000000000000),
                           (4, CreateToken ''ipfs://c'' 5000000000000000 1000000000000000),
                           (5, CreateMarketSale 3 5000000000000000),
                           (5, ResellToken 3 7 1000000000000000)]"

text \<open>
  The deployer sets the listing price to 0. Account 1 lists an item, account 2 buys it and
  hands the token back, and account 3 buys it.
\<close>

definition free_bought_twice :: contract where
  "free_bought_twice = run 0 [(0, UpdateListingPrice 0 0),
                              (1, CreateToken ''ipfs://a'' 5000000000000000 0),
                              (2, CreateMarketSale 1 5000000000000000),
                              (2, TransferFrom (Account 2) AddressThis 1),
                              (3, CreateMarketSale 1 5000000000000000)]"

text \<open>
  Two states on the way to \<open>relisted_after\<close>: the third item listed, and then bought.
\<close>

definition third_listed :: contract where
  "third_listed = run 0 [(1, CreateToken ''ipfs://a'' 5000000000000000 1000000000000000),
                         (1, CreateToken ''ipfs://b'' 5000000000000000 1000000000000000),
                         (2, CreateMarketSale 1 5000000000000000),
                         (2, TransferFrom (Account 2) AddressThis 1),
                         (3, CreateMarketSale 1 5000000000000000),
                         (4, CreateToken ''ipfs://c'' 5000000000000000 1000000000000000)]"

definition third_bought :: contract where
  "third_bought = run 0 [(1, CreateToken ''ipfs://a'' 5000000000000000 1000000000000000),
                         (1, CreateToken ''ipfs://b'' 5000000000000000 1000000000000000),
                         (2, CreateMarketSale 1 5000000000000000),
                         (2, TransferFrom (Account 2) AddressThis 1),
                         (3, CreateMarketSale 1 5000000000000000),
                         (4, CreateToken ''ipfs://c'' 5000000000000000 1000000000000000),
                         (5, CreateMarketSale 3 5000000000000000)]"

section \<open>What a successful call did\<close>

lemma createMarketSale_Inr:
  assumes "createMarketSale s t v c = Inr s'"
  shows "v = price (idToMarketItem s t)"
    and "owners s t = AddressThis"
    and "c \<noteq> Address0"
    and "tokenIds s' = tokenIds s"
    and "itemsSold s' = itemsSold s + 1"
    and "listingPrice s' = listingPrice s"
    and "marketOwner s' = marketOwner s"
    and "idToMarketItem s' = (idToMarketItem s)
           (t := (idToMarketItem s t)\<lparr>seller := Address0, owner := c, sold := True\<rparr>)"
    and "owners s' = (owners s)(t := c)"
    and "transfers s' = transfers s @
           [(marketOwner s, listingPrice s), (seller (idToMarketItem s t), v)]"
    and "balance s' + listingPrice s = balance s"
    and "tokenApprovals s' = (tokenApprovals s)(t := Address0)"
    and "operatorApprovals s' = operatorApprovals s"
  using assms
  by (auto simp: createMarketSale_def receive_value_def ERC721_transfer_def ERC721_ownerOf_def
      payable_transfer_def Let_def split: if_splits sum.splits)

lemma cancelItemListing_Inr:
  assumes "cancelItemListing s t c = Inr s'"
  shows "seller (idToMarketItem s t) = c"
    and "\<not> sold (idToMarketItem s t)"
    and "owners s t = AddressThis"
    and "c \<noteq> Address0"
    and "tokenIds s' = tokenIds s"
    and "itemsSold s' = itemsSold s + 1"
    and "listingPrice s' = listingPrice s"
    and "marketOwner s' = marketOwner s"
    and "idToMarketItem s' = (idToMarketItem s)
           (t := (idToMarketItem s t)\<lparr>seller := Address0, owner := c, sold := True\<rparr>)"
    and "owners s' = (owners s)(t := c)"
    and "transfers s' = transfers s @ [(marketOwner s, listingPrice s)]"
    and "balance s' + listingPrice s = balance s"
    and "tokenApprovals s' = (tokenApprovals s)(t := Address0)"
    and "operatorApprovals s' = operatorApprovals s"
  using assms
  by (auto simp: cancelItemListing_def ERC721_transfer_def ERC721_ownerOf_def
      payable_transfer_def Let_def split: if_splits sum.splits)

lemma resellToken_Inr:
  assumes "resellToken s t p v c = Inr s'"
  shows "owner (idToMarketItem s t) = c"
    and "v = listingPrice s"
    and "owners s t = c"
    and "c \<noteq> Address0"
    and "tokenIds s' = tokenIds s"
    and "itemsSold s' + 1 = itemsSold s"
    and "listingPrice s' = listingPrice s"
    and "marketOwner s' = marketOwner s"
    and "idToMarketItem s' = (idToMarketItem s)
           (t := (idToMarketItem s t)
                   \<lparr>seller := c, owner := AddressThis, price := p, sold := False\<rparr>)"
    and "owners s' = (owners s)(t := AddressThis)"
    and "transfers s' = transfers s"
    and "balance s' = balance s + v"
    and "tokenApprovals s' = (tokenApprovals s)(t := Address0)"
    and "operatorApprovals s' = operatorApprovals s"
  using assms
  by (auto simp: resellToken_def receive_value_def ERC721_transfer_def ERC721_ownerOf_def
      Counter_decrement_def Let_def split: if_splits sum.splits)

lemma createToken_Inr:
  assumes "createToken s uri p v c = Inr (s', n)"
  shows "0 < p"
    and "v = listingPrice s"
    and "c \<noteq> Address0"
    and "owners s (Suc (tokenIds s)) = Address0"
    and "n = Suc (tokenIds s)"
    and "tokenIds s' = Suc (tokenIds s)"
    and "itemsSold s' = itemsSold s"
    and "listingPrice s' = listingPrice s"
    and "marketOwner s' = marketOwner s"
    and "idToMarketItem s' = (idToMarketItem s)
           (Suc (tokenIds s) := \<lparr>tokenId = Suc (tokenIds s), seller = c, owner = AddressThis,
                                price = p, sold = False\<rparr>)"
    and "owners s' = (owners s)(Suc (tokenIds s) := AddressThis)"
    and "tokenURIs s' = (tokenURIs s)(Suc (tokenIds s) := uri)"
    and "transfers s' = transfers s"
    and "balance s' = balance s + v"
    and "tokenApprovals s' = (tokenApprovals s)(Suc (tokenIds s) := Address0)"
    and "operatorApprovals s' = operatorApprovals s"
  using assms
  by (auto simp: createToken_def createMarketItem_def receive_value_def ERC721_mint_def
      ERC721_setTokenURI_def ERC721_transfer_def ERC721_ownerOf_def Let_def
      split: if_splits sum.splits)

lemma updateListingPrice_Inr:
  assumes "updateListingPrice s p v c = Inr s'"
  shows "marketOwner s = c"
    and "tokenIds s' = tokenIds s"
    and "itemsSold s' = itemsSold s"
    and "listingPrice s' = p"
    and "marketOwner s' = marketOwner s"
    and "idToMarketItem s' = idToMarketItem s"
    and "owners s' = owners s"
    and "transfers s' = transfers s"
    and "balance s' = balance s + v"
    and "tokenApprovals s' = tokenApprovals s"
    and "operatorApprovals s' = operatorApprovals s"
  using assms
  by (auto simp: updateListingPrice_def receive_value_def Let_def split: if_splits)

lemma transferFrom_Inr:
  assumes "transferFrom s from to t c = Inr s'"
  shows "owners s t = from"
    and "c = from \<or> operatorApprovals s from c \<or> tokenApprovals s t = c"
    and "from \<noteq> Address0"
    and "to \<noteq> Address0"
    and "tokenIds s' = tokenIds s"
    and "itemsSold s' = itemsSold s"
    and "listingPrice s' = listingPrice s"
    and "marketOwner s' = marketOwner s"
    and "idToMarketItem s' = idToMarketItem s"
    and "owners s' = (owners s)(t := to)"
    and "transfers s' = transfers s"
    and "balance s' = balance s"
    and "tokenApprovals s' = (tokenApprovals s)(t := Address0)"
    and "operatorApprovals s' = operatorApprovals s"
  using assms
  by (auto simp: transferFrom_def ERC721_isApprovedOrOwner_def ERC721_transfer_def
      ERC721_ownerOf_def split: if_splits sum.splits)

lemma safeTransferFrom_Inr:
  assumes "safeTransferFrom s from to t c = Inr s'"
  shows "transferFrom s from to t c = Inr s'"
  using assms by (auto simp: safeTransferFrom_def split: if_splits sum.splits)

lemma approve_Inr:
  assumes "approve s to t c = Inr s'"
  shows "c = owners s t \<or> operatorApprovals s (owners s t) c"
    and "owners s t \<noteq> Address0"
    and "tokenIds s' = tokenIds s"
    and "itemsSold s' = itemsSold s"
    and "listingPrice s' = listingPrice s"
    and "marketOwner s' = marketOwner s"
    and "idToMarketItem s' = idToMarketItem s"
    and "owners s' = owners s"
    and "transfers s' = transfers s"
    and "balance s' = balance s"
    and "tokenApprovals s' = (tokenApprovals s)(t := to)"
    and "operatorApprovals s' = operatorApprovals s"
  using assms
  by (auto simp: approve_def ERC721_ownerOf_def split: if_splits sum.splits)

lemma setApprovalForAll_Inr:
  assumes "setApprovalForAll s operator approved c = Inr s'"
  shows "tokenIds s' = tokenIds s"
    and "itemsSold s' = itemsSold s"
    and "listingPrice s' = listingPrice s"
    and "marketOwner s' = marketOwner s"
    and "idToMarketItem s' = idToMarketItem s"
    and "owners s' = owners s"
    and "transfers s' = transfers s"
    and "balance s' = balance s"
    and "tokenApprovals s' = tokenApprovals s"
    and "operatorApprovals s' =
           (operatorApprovals s)(c := (operatorApprovals s c)(operator := approved))"
  using assms
  by (auto simp: setApprovalForAll_def split: if_splits)

section \<open>The invariant\<close>

lemma consistent_constructor: "consistent (constructor a)"
  by (simp add: consistent_def item_ok_def constructor_def)

lemma consistent_in_range:
  assumes "consistent s" and "owners s t \<noteq> Address0"
  shows "1 \<le> t \<and> t \<le> tokenIds s"
proof -
  from assms(1) have "item_ok s t" by (simp add: consistent_def)
  with assms(2) show ?thesis by (auto simp: item_ok_def Let_def split: if_splits)
qed

lemma consistent_item:
  assumes "consistent s" and "1 \<le> i" and "i \<le> tokenIds s"
  shows "tokenId (idToMarketItem s i) = i"
    and "owner (idToMarketItem s i) = AddressThis \<longleftrightarrow> \<not> sold (idToMarketItem s i)"
    and "seller (idToMarketItem s i) = Address0 \<longleftrightarrow> sold (idToMarketItem s i)"
    and "owner (idToMarketItem s i) \<noteq> Address0"
    and "\<not> sold (idToMarketItem s i) \<longrightarrow> owners s i = AddressThis"
    and "owners s i \<noteq> Address0"
proof -
  from assms(1) have "item_ok s i" by (simp add: consistent_def)
  with assms(2,3) show "tokenId (idToMarketItem s i) = i"
    and "owner (idToMarketItem s i) = AddressThis \<longleftrightarrow> \<not> sold (idToMarketItem s i)"
    and "seller (idToMarketItem s i) = Address0 \<longleftrightarrow> sold (idToMarketItem s i)"
    and "owner (idToMarketItem s i) \<noteq> Address0"
    and "\<not> sold (idToMarketItem s i) \<longrightarrow> owners s i = AddressThis"
    and "owners s i \<noteq> Address0"
    by (auto simp: item_ok_def Let_def split: if_splits)
qed

lemma consistent_absent:
  assumes "consistent s" and "i = 0 \<or> tokenIds s < i"
  shows "idToMarketItem s i = zero_item" and "owners s i = Address0"
proof -
  from assms(1) have "item_ok s i" by (simp add: consistent_def)
  with assms(2) show "idToMarketItem s i = zero_item" and "owners s i = Address0"
    by (auto simp: item_ok_def Let_def split: if_splits)
qed

lemma consistent_sold:
  assumes "consistent s" and "sold (idToMarketItem s t)"
  shows "seller (idToMarketItem s t) = Address0"
proof -
  from assms(1) have "item_ok s t" by (simp add: consistent_def)
  with assms(2) show ?thesis
    by (auto simp: item_ok_def Let_def zero_item_def split: if_splits)
qed

lemma consistent_seller:
  assumes "consistent s" and "seller (idToMarketItem s t) = Account a"
  shows "1 \<le> t" and "t \<le> tokenIds s" and "owners s t = AddressThis"
    and "\<not> sold (idToMarketItem s t)"
proof -
  from assms(1) have "item_ok s t" by (simp add: consistent_def)
  with assms(2) show "1 \<le> t" and "t \<le> tokenIds s" and "owners s t = AddressThis"
    and "\<not> sold (idToMarketItem s t)"
    by (auto simp: item_ok_def Let_def zero_item_def split: if_splits)
qed

lemma consistent_owner:
  assumes "consistent s" and "owner (idToMarketItem s t) = Account a"
  shows "1 \<le> t" and "t \<le> tokenIds s" and "sold (idToMarketItem s t)"
proof -
  from assms(1) have "item_ok s t" by (simp add: consistent_def)
  with assms(2) show "1 \<le> t" and "t \<le> tokenIds s" and "sold (idToMarketItem s t)"
    by (auto simp: item_ok_def Let_def zero_item_def split: if_splits)
qed

text \<open>An account cannot act on a token that the contract holds.\<close>

lemma consistent_escrow_locked:
  assumes "consistent s" and "owners s t = AddressThis"
  shows "\<not> (Account a = owners s t \<or> operatorApprovals s (owners s t) (Account a) \<or>
            tokenApprovals s t = Account a)"
  using assms by (simp add: consistent_def)

lemma consistentI:
  assumes "\<And>i. item_ok s i"
    and "\<And>i. owners s i = AddressThis \<Longrightarrow> tokenApprovals s i = Address0"
    and "\<And>x. \<not> operatorApprovals s AddressThis x"
  shows "consistent s"
  using assms by (simp add: consistent_def)

lemma consistent_createMarketSale:
  assumes c: "consistent s" and r: "createMarketSale s t v (Account a) = Inr s'"
  shows "consistent s'"
proof (rule consistentI)
  note f = createMarketSale_Inr(4-) [OF r]
  from createMarketSale_Inr(2) [OF r] have held: "owners s t = AddressThis" .
  then have "owners s t \<noteq> Address0" by simp
  with c have range: "1 \<le> t \<and> t \<le> tokenIds s" by (rule consistent_in_range)
  from c have okt: "item_ok s t" by (simp add: consistent_def)
  show "item_ok s' i" for i
  proof -
    from c have "item_ok s i" by (simp add: consistent_def)
    with okt range show ?thesis
      by (auto simp: item_ok_def Let_def f split: if_splits)
  qed
  show "tokenApprovals s' i = Address0" if "owners s' i = AddressThis" for i
    using that c by (auto simp: f consistent_def split: if_splits)
  show "\<not> operatorApprovals s' AddressThis x" for x
    using c by (simp add: f consistent_def)
qed

lemma consistent_cancelItemListing:
  assumes c: "consistent s" and r: "cancelItemListing s t (Account a) = Inr s'"
  shows "consistent s'"
proof (rule consistentI)
  note f = cancelItemListing_Inr(5-) [OF r]
  from cancelItemListing_Inr(3) [OF r] have "owners s t \<noteq> Address0" by simp
  with c have range: "1 \<le> t \<and> t \<le> tokenIds s" by (rule consistent_in_range)
  from c have okt: "item_ok s t" by (simp add: consistent_def)
  show "item_ok s' i" for i
  proof -
    from c have "item_ok s i" by (simp add: consistent_def)
    with okt range show ?thesis
      by (auto simp: item_ok_def Let_def f split: if_splits)
  qed
  show "tokenApprovals s' i = Address0" if "owners s' i = AddressThis" for i
    using that c by (auto simp: f consistent_def split: if_splits)
  show "\<not> operatorApprovals s' AddressThis x" for x
    using c by (simp add: f consistent_def)
qed

lemma consistent_resellToken:
  assumes c: "consistent s" and r: "resellToken s t p v (Account a) = Inr s'"
  shows "consistent s'"
proof (rule consistentI)
  note f = resellToken_Inr(5-) [OF r]
  note o = resellToken_Inr(1) [OF r]
  from consistent_owner [OF c o] have range: "1 \<le> t \<and> t \<le> tokenIds s" by simp
  from c have okt: "item_ok s t" by (simp add: consistent_def)
  show "item_ok s' i" for i
  proof -
    from c have "item_ok s i" by (simp add: consistent_def)
    with okt range o show ?thesis
      by (auto simp: item_ok_def Let_def f split: if_splits)
  qed
  show "tokenApprovals s' i = Address0" if "owners s' i = AddressThis" for i
    using that c by (auto simp: f consistent_def split: if_splits)
  show "\<not> operatorApprovals s' AddressThis x" for x
    using c by (simp add: f consistent_def)
qed

lemma consistent_createToken:
  assumes c: "consistent s" and r: "createToken s uri p v (Account a) = Inr (s', n)"
  shows "consistent s'"
proof (rule consistentI)
  note f = createToken_Inr(6-) [OF r]
  show "item_ok s' i" for i
  proof -
    from c have "item_ok s i" by (simp add: consistent_def)
    then show ?thesis
      by (auto simp: item_ok_def Let_def f split: if_splits)
  qed
  show "tokenApprovals s' i = Address0" if "owners s' i = AddressThis" for i
    using that c by (auto simp: f consistent_def split: if_splits)
  show "\<not> operatorApprovals s' AddressThis x" for x
    using c by (simp add: f consistent_def)
qed

lemma consistent_updateListingPrice:
  assumes c: "consistent s" and r: "updateListingPrice s p v (Account a) = Inr s'"
  shows "consistent s'"
proof -
  note f = updateListingPrice_Inr [OF r]
  have "item_ok s' i = item_ok s i" for i
    by (simp add: item_ok_def f)
  with c show ?thesis by (simp add: consistent_def f)
qed

lemma consistent_transferFrom:
  assumes c: "consistent s" and r: "transferFrom s from to t (Account a) = Inr s'"
  shows "consistent s'"
proof (rule consistentI)
  note f = transferFrom_Inr(5-) [OF r]
  note g = transferFrom_Inr(1-4) [OF r]
  have free: "owners s t \<noteq> AddressThis"
  proof
    assume "owners s t = AddressThis"
    from consistent_escrow_locked [OF c this, of a] g(1,2) show False by simp
  qed
  from g(1,3) have "owners s t \<noteq> Address0" by simp
  with c have range: "1 \<le> t \<and> t \<le> tokenIds s" by (rule consistent_in_range)
  from c have okt: "item_ok s t" by (simp add: consistent_def)
  show "item_ok s' i" for i
  proof -
    from c have "item_ok s i" by (simp add: consistent_def)
    with okt range free g(4) show ?thesis
      by (auto simp: item_ok_def Let_def f split: if_splits)
  qed
  show "tokenApprovals s' i = Address0" if "owners s' i = AddressThis" for i
    using that c by (auto simp: f consistent_def split: if_splits)
  show "\<not> operatorApprovals s' AddressThis x" for x
    using c by (simp add: f consistent_def)
qed

lemma consistent_approve:
  assumes c: "consistent s" and r: "approve s to t (Account a) = Inr s'"
  shows "consistent s'"
proof (rule consistentI)
  note f = approve_Inr(3-) [OF r]
  have free: "owners s t \<noteq> AddressThis"
  proof
    assume "owners s t = AddressThis"
    from consistent_escrow_locked [OF c this, of a] approve_Inr(1) [OF r] show False by simp
  qed
  show "item_ok s' i" for i
  proof -
    have "item_ok s' i = item_ok s i" by (simp add: item_ok_def f)
    with c show ?thesis by (simp add: consistent_def)
  qed
  show "tokenApprovals s' i = Address0" if "owners s' i = AddressThis" for i
    using that c free by (auto simp: f consistent_def split: if_splits)
  show "\<not> operatorApprovals s' AddressThis x" for x
    using c by (simp add: f consistent_def)
qed

lemma consistent_setApprovalForAll:
  assumes c: "consistent s" and r: "setApprovalForAll s operator approved (Account a) = Inr s'"
  shows "consistent s'"
proof (rule consistentI)
  note f = setApprovalForAll_Inr [OF r]
  show "item_ok s' i" for i
  proof -
    have "item_ok s' i = item_ok s i" by (simp add: item_ok_def f)
    with c show ?thesis by (simp add: consistent_def)
  qed
  show "tokenApprovals s' i = Address0" if "owners s' i = AddressThis" for i
    using that c by (simp add: f consistent_def)
  show "\<not> operatorApprovals s' AddressThis x" for x
    using c by (simp add: f consistent_def)
qed

lemma map_sum_fst_Inr: "map_sum id fst r = Inr x \<longleftrightarrow> (\<exists>n. r = Inr (x, n))"
  by (cases r) auto

lemma consistent_perform:
  assumes c: "consistent s" and r: "perform s (Account a) call = Inr s'"
  shows "consistent s'"
proof (cases call)
  case (CreateToken uri p v)
  with r obtain n where "createToken s uri p v (Account a) = Inr (s', n)"
    by (auto simp: map_sum_fst_Inr)
  with c show ?thesis by (rule consistent_createToken)
next
  case (CreateMarketSale t v)
  with c r show ?thesis by (simp add: consistent_createMarketSale)
next
  case (ResellToken t p v)
  with c r show ?thesis by (simp add: consistent_resellToken)
next
  case (CancelItemListing t)
  with c r show ?thesis by (simp add: consistent_cancelItemListing)
next
  case (UpdateListingPrice p v)
  with c r show ?thesis by (simp add: consistent_updateListingPrice)
next
  case (Approve to t)
  with c r show ?thesis by (simp add: consistent_approve)
next
  case (SetApprovalForAll operator approved)
  with c r show ?thesis by (simp add: consistent_setApprovalForAll)
next
  case (TransferFrom "from" to t)
  with c r show ?thesis by (simp add: consistent_transferFrom)
next
  case (SafeTransferFrom "from" to t)
  with r have "transferFrom s from to t (Account a) = Inr s'"
    by (simp add: safeTransferFrom_Inr)
  with c show ?thesis by (rule consistent_transferFrom)
qed

lemma consistent_exec: "consistent s \<Longrightarrow> consistent (exec s tx)"
  by (cases tx) (auto split: sum.splits intro: consistent_perform)

lemma consistent_foldl: "consistent s \<Longrightarrow> consistent (foldl exec s txs)"
  by (induction txs arbitrary: s) (simp_all add: consistent_exec)

lemma consistent_run: "consistent (run d txs)"
  by (simp add: run_def consistent_foldl consistent_constructor)

section \<open>The queries\<close>

lemma matching_Suc:
  "matching s P (Suc n) =
     matching s P n @ (if P (idToMarketItem s (Suc n)) then [idToMarketItem s (Suc n)] else [])"
  by (simp add: matching_def)

lemma count_loop_eq: "count_loop s P n = length (matching s P n)"
proof (induction n)
  case 0
  show ?case by (simp add: count_loop_def matching_def)
next
  case (Suc n)
  then show ?case by (simp add: count_loop_def matching_Suc)
qed

lemma update_padding:
  assumes "length ms < len"
  shows "(ms @ replicate (len - length ms) z)[length ms := x] =
         (ms @ [x]) @ replicate (len - Suc (length ms)) z"
proof -
  from assms obtain k where k: "len - length ms = Suc k"
    by (metis Suc_diff_Suc)
  then have "len - Suc (length ms) = k" by simp
  with k show ?thesis by (simp add: list_update_append)
qed

lemma fill_step_Inl: "fill_step s P i (Inl e) = Inl e"
  by (simp add: fill_step_def)

lemma fill_step_Inr:
  "fill_step s P i (Inr (items, k)) =
     (if P (idToMarketItem s (Suc i)) then
        (if k < length items then Inr (items[k := idToMarketItem s (Suc i)], Suc k)
         else Inl PanicIndex)
      else Inr (items, k))"
  by (simp add: fill_step_def)

lemma fold_fill_step:
  "fold (fill_step s P) [0..<n] (Inr (replicate len zero_item, 0)) =
     (if length (matching s P n) \<le> len
      then Inr (matching s P n @ replicate (len - length (matching s P n)) zero_item,
                length (matching s P n))
      else Inl PanicIndex)"
proof (induction n)
  case 0
  show ?case by (simp add: matching_def)
next
  case (Suc n)
  show ?case
  proof (cases "P (idToMarketItem s (Suc n))")
    case False
    with Suc show ?thesis by (simp add: fill_step_Inr fill_step_Inl matching_Suc)
  next
    case True
    consider "length (matching s P n) < len" | "length (matching s P n) = len"
      | "len < length (matching s P n)"
      by linarith
    then show ?thesis
    proof cases
      case 1
      with Suc True show ?thesis
        by (simp add: fill_step_Inr fill_step_Inl matching_Suc update_padding)
    next
      case 2
      with Suc True show ?thesis by (simp add: fill_step_Inr fill_step_Inl matching_Suc)
    next
      case 3
      with Suc True show ?thesis by (simp add: fill_step_Inr fill_step_Inl matching_Suc)
    qed
  qed
qed

lemma fill_loop_eq:
  "fill_loop s P n len =
     (if length (matching s P n) \<le> len
      then Inr (matching s P n @ replicate (len - length (matching s P n)) zero_item)
      else Inl PanicIndex)"
  by (simp add: fill_loop_def fold_fill_step)

lemma fetchMyNFTs_eq:
  "fetchMyNFTs s c = Inr (matching s (\<lambda>m. owner m = c) (tokenIds s))"
  by (simp add: fetchMyNFTs_def Let_def fill_loop_eq count_loop_eq)

lemma fetchItemsListed_eq:
  "fetchItemsListed s c = Inr (matching s (\<lambda>m. seller m = c) (tokenIds s))"
  by (simp add: fetchItemsListed_def Let_def fill_loop_eq count_loop_eq)

lemma tokenId_matching:
  assumes "consistent s"
  shows "map tokenId (matching s P (tokenIds s)) =
         filter (\<lambda>i. P (idToMarketItem s i)) (ids s)"
proof -
  have "map (\<lambda>i. tokenId (idToMarketItem s i)) (filter (\<lambda>i. P (idToMarketItem s i)) (ids s)) =
        map (\<lambda>i. i) (filter (\<lambda>i. P (idToMarketItem s i)) (ids s))"
    by (rule map_cong) (auto simp: ids_def consistent_item(1) [OF assms])
  then show ?thesis by (simp add: matching_def ids_def comp_def)
qed

lemma ascending_matching:
  assumes "consistent s"
  shows "sorted_wrt (<) (map tokenId (matching s P (tokenIds s)))"
  by (simp add: tokenId_matching [OF assms] ids_def sorted_wrt_filter del: upt_Suc)

section \<open>Evaluation\<close>

text \<open>The defining equations with which a call is evaluated on a concrete state.\<close>

lemmas op_defs = constructor_def receive_value_def createToken_def createMarketItem_def
  createMarketSale_def resellToken_def cancelItemListing_def updateListingPrice_def
  approve_def setApprovalForAll_def transferFrom_def safeTransferFrom_def
  ERC721_mint_def ERC721_setTokenURI_def ERC721_transfer_def ERC721_ownerOf_def
  ERC721_isApprovedOrOwner_def payable_transfer_def Counter_decrement_def Let_def

lemmas query_defs = fetchMarketItems_def fetchMyNFTs_def fetchItemsListed_def fill_loop_def
  fill_step_def count_loop_def zero_item_def ids_def upt_rec

lemmas sample_defs = listed_def bought_def resold_free_def fee_raised_def handed_back_def
  bought_twice_def third_listed_def third_bought_def relisted_after_def
  free_bought_twice_def run_def

section \<open>Purchase\<close>

text \<open>
  Claim C1 fails on \<open>createMarketSale\<close>, which reads neither \<open>sold\<close> nor the
  existence of the record: its only check is the payment, and what else stops a purchase
  is the token transfer out of the contract. In the sample run the first item was bought
  by account 2, its record has \<open>sold == true\<close> and no seller, and account 2 handed the
  token back to the contract with the inherited \<open>transferFrom\<close>. The purchase of that item
  by account 3 with the old price attached succeeds: the record stays sold, \<open>_itemsSold\<close>
  is incremented again, and the payment is sent to the zero address. The sibling
  \<open>cancelItemListing\<close> does require \<open>sold == false\<close>.
\<close>

theorem sold_item_bought_again:
  "idToMarketItem handed_back 1 =
     \<lparr>tokenId = 1, seller = Address0, owner = Account 2, price = 5000000000000000,
      sold = True\<rparr> \<and>
   itemsSold handed_back = 1 \<and>
   createMarketSale handed_back 1 5000000000000000 (Account 3) = Inr bought_twice \<and>
   idToMarketItem bought_twice 1 =
     \<lparr>tokenId = 1, seller = Address0, owner = Account 3, price = 5000000000000000,
      sold = True\<rparr> \<and>
   itemsSold bought_twice = 2 \<and>
   transfers bought_twice =
     [(Account 0, 1000000000000000), (Account 1, 5000000000000000),
      (Account 0, 1000000000000000), (Address0, 5000000000000000)]"
  by (simp add: sample_defs op_defs)

text \<open>
  Claim C3, as the contract has it. A successful \<open>createMarketSale\<close> was called on a
  record whose token the contract held, with the record's price attached; it sets
  \<open>owner\<close> to the caller, \<open>sold\<close> to true and \<open>seller\<close> to the zero address, adds
  one to \<open>_itemsSold\<close>, sends the listing price to the contract's owner and then the
  whole value attached to the previous seller. The contract's balance ends lower by the
  listing price: the fee comes out of what the contract held.
\<close>

theorem sale_effects:
  assumes "createMarketSale s t v c = Inr s'"
  shows "owners s t = AddressThis \<and>
         v = price (idToMarketItem s t) \<and>
         idToMarketItem s' t =
           (idToMarketItem s t)\<lparr>seller := Address0, owner := c, sold := True\<rparr> \<and>
         owners s' t = c \<and>
         itemsSold s' = itemsSold s + 1 \<and>
         transfers s' = transfers s @
           [(marketOwner s, listingPrice s), (seller (idToMarketItem s t), v)] \<and>
         balance s' + listingPrice s = balance s"
  using createMarketSale_Inr [OF assms] by simp

text \<open>The purchase of the sample run.\<close>

theorem sale_effects_witness:
  "createMarketSale listed 1 5000000000000000 (Account 2) = Inr bought \<and>
   idToMarketItem bought 1 =
     \<lparr>tokenId = 1, seller = Address0, owner = Account 2, price = 5000000000000000,
      sold = True\<rparr> \<and>
   itemsSold listed = 0 \<and> itemsSold bought = 1 \<and>
   transfers bought = [(Account 0, 1000000000000000), (Account 1, 5000000000000000)]"
  using sale_effects [of listed 1 5000000000000000 "Account 2" bought]
  by (simp add: sample_defs op_defs)

text \<open>
  The seller is not sent what remains of the payment after the fee: with a listing price
  of \<open>0.001 ether\<close> and a payment of \<open>0.005 ether\<close> the seller receives
  \<open>0.005 ether\<close>, not \<open>0.004 ether\<close>.
\<close>

theorem sale_pays_seller_whole_payment:
  "seller (idToMarketItem listed 1) = Account 1 \<and>
   marketOwner listed = Account 0 \<and>
   listingPrice listed = 1000000000000000 \<and>
   map_sum id transfers (createMarketSale listed 1 5000000000000000 (Account 2)) =
     Inr [(Account 0, 1000000000000000), (Account 1, 5000000000000000)] \<and>
   (5000000000000000::nat) - listingPrice listed = 4000000000000000"
  by (simp add: sample_defs op_defs)

section \<open>Prices\<close>

lemma list_price_positive:
  assumes "createToken s uri p v c = Inr (s', n)"
  shows "0 < price (idToMarketItem s' n)"
  using createToken_Inr [OF assms] by simp

text \<open>
  Claim C2 fails on \<open>resellToken\<close>, which has no check of the price: in the sample run
  the buyer lists the item again at price 0 and the call succeeds, leaving an active
  record of price 0. The same price is refused by \<open>createToken\<close>.
\<close>

theorem resell_accepts_price_zero:
  "resellToken bought 1 0 1000000000000000 (Account 2) = Inr resold_free \<and>
   idToMarketItem resold_free 1 =
     \<lparr>tokenId = 1, seller = Account 2, owner = AddressThis, price = 0, sold = False\<rparr> \<and>
   createToken bought ''ipfs://b'' 0 1000000000000000 (Account 2) =
     Inl PriceMustBeGreaterThanZero"
  by (simp add: sample_defs op_defs)

section \<open>The counters\<close>

text \<open>
  Claim C5 fails on the contract, by the purchase of a sold item (see C1). With the
  listing price set to 0 by the deployer, one item is listed, bought, handed back to the
  contract and bought again: one identifier is allocated and \<open>_itemsSold\<close> (the spec's
  \<open>removedCount\<close>) is 2.
\<close>

theorem removed_exceeds_allocated:
  "tokenIds free_bought_twice = 1 \<and> itemsSold free_bought_twice = 2"
  by (simp add: sample_defs op_defs)

text \<open>
  Claim C4 fails on the contract, by the purchase of a sold item (see C1). After two
  listings and two purchases of the first item, two identifiers are allocated and
  \<open>_itemsSold\<close> is 2, so the count \<open>_tokenIds - _itemsSold\<close> is 0; but the second record
  has \<open>sold == false\<close>, and \<open>fetchMarketItems\<close>, which sizes its result with that
  count, writes past the end of it and reverts.
\<close>

theorem active_count_off:
  "tokenIds bought_twice = 2 \<and>
   itemsSold bought_twice = 2 \<and>
   ids bought_twice = [1, 2] \<and>
   sold (idToMarketItem bought_twice 1) = True \<and>
   sold (idToMarketItem bought_twice 2) = False \<and>
   fetchMarketItems bought_twice = Inl PanicIndex"
  by (simp add: sample_defs op_defs query_defs)

section \<open>List, buy, list again\<close>

text \<open>
  Claim C6 fails on the contract, by the purchase of a sold item (see C1). In the state
  where the first item was bought twice, account 4 lists a third item at
  \<open>0.005 ether\<close>, account 5 buys it and lists it again at 7 wei, each call with the
  required payment. The three calls succeed, and the record of the item is an active
  listing at 7 wei; but \<open>fetchMarketItems\<close> reverts instead of returning it.
\<close>

theorem round_trip_query_reverts:
  "createToken bought_twice ''ipfs://c'' 5000000000000000 (listingPrice bought_twice) (Account 4) =
     Inr (third_listed, 3) \<and>
   createMarketSale third_listed 3 5000000000000000 (Account 5) = Inr third_bought \<and>
   resellToken third_bought 3 7 (listingPrice third_bought) (Account 5) =
     Inr relisted_after \<and>
   idToMarketItem relisted_after 3 =
     \<lparr>tokenId = 3, seller = Account 5, owner = AddressThis, price = 7, sold = False\<rparr> \<and>
   fetchMarketItems relisted_after = Inl PanicIndex"
  by (simp add: sample_defs op_defs query_defs)

section \<open>Cancel\<close>

lemma cancelItemListing_succeeds:
  assumes "seller (idToMarketItem s t) = Account a" and "\<not> sold (idToMarketItem s t)"
    and "owners s t = AddressThis" and "listingPrice s \<le> balance s"
  shows "\<exists>s'. cancelItemListing s t (Account a) = Inr s'"
  using assms by (simp add: op_defs)

lemma cancel_not_seller:
  "seller (idToMarketItem s t) \<noteq> c \<Longrightarrow> cancelItemListing s t c = Inl OnlyItemSeller"
  by (simp add: cancelItemListing_def)

lemma cancel_sold:
  assumes "consistent s" and "sold (idToMarketItem s t)"
  shows "cancelItemListing s t (Account a) = Inl OnlyItemSeller"
  using consistent_sold [OF assms] by (simp add: cancelItemListing_def)

lemma cancel_unfunded:
  "seller (idToMarketItem s t) = c \<and> sold (idToMarketItem s t) = False \<and>
   balance s < listingPrice s \<longrightarrow>
     cancelItemListing s t c = Inl EtherTransferFailed"
  by (simp add: cancelItemListing_def payable_transfer_def Let_def)

lemma cancel_listing:
  assumes c: "consistent s" and sel: "seller (idToMarketItem s t) = Account a"
    and bal: "listingPrice s \<le> balance s"
  shows "\<exists>s' ls ow.
           cancelItemListing s t (Account a) = Inr s' \<and>
           idToMarketItem s' t =
             (idToMarketItem s t)\<lparr>seller := Address0, owner := Account a, sold := True\<rparr> \<and>
           itemsSold s' = itemsSold s + 1 \<and>
           transfers s' = transfers s @ [(marketOwner s, listingPrice s)] \<and>
           fetchItemsListed s' (Account a) = Inr ls \<and>
           t \<notin> set (map tokenId ls) \<and>
           fetchMyNFTs s' (Account a) = Inr ow \<and>
           idToMarketItem s' t \<in> set ow"
proof -
  note q = consistent_seller [OF c sel]
  from cancelItemListing_succeeds [OF sel q(4) q(3) bal]
  obtain s' where r: "cancelItemListing s t (Account a) = Inr s'" ..
  note f = cancelItemListing_Inr(5-) [OF r]
  have c': "consistent s'" by (rule consistent_cancelItemListing [OF c r])
  have "seller (idToMarketItem s' t) \<noteq> Account a" by (simp add: f)
  then have "t \<notin> set (map tokenId (matching s' (\<lambda>m. seller m = Account a) (tokenIds s')))"
    by (simp add: tokenId_matching [OF c'])
  moreover have "idToMarketItem s' t \<in> set (matching s' (\<lambda>m. owner m = Account a) (tokenIds s'))"
  proof -
    have "t \<in> set (filter (\<lambda>i. owner (idToMarketItem s' i) = Account a) [1..<Suc (tokenIds s')])"
      using q(1,2) by (simp add: f)
    then show ?thesis unfolding matching_def set_map by (rule imageI)
  qed
  ultimately show ?thesis
    using r f(2,5,7) by (simp add: fetchItemsListed_eq fetchMyNFTs_eq)
qed

text \<open>
  Claim C7, as the contract has it. \<open>cancelItemListing\<close> reverts with "Only item seller
  can perform this operation" when the caller is not the record's seller; in a state
  reached from the constructor that is every call on a record flagged sold, whose seller
  is the zero address, so the second check ("Only cancel items which are not sold yet")
  never decides. For a record of such a state with the caller as seller and
  \<open>sold == false\<close> the call succeeds when the contract holds at least the listing
  price: it sets \<open>owner\<close> to the caller, \<open>seller\<close> to the zero address and \<open>sold\<close> to
  true, adds one to \<open>_itemsSold\<close> and sends the listing price to the contract's owner;
  afterwards \<open>fetchItemsListed\<close> of the caller has no record of the item and
  \<open>fetchMyNFTs\<close> of the caller has it. When the contract holds less than the listing
  price, the call of the seller on such a record reverts in the payment of the fee.
\<close>

theorem cancel_effects:
  "(seller (idToMarketItem s t) \<noteq> c \<longrightarrow> cancelItemListing s t c = Inl OnlyItemSeller) \<and>
   (sold (idToMarketItem (run d txs) t) \<longrightarrow>
      cancelItemListing (run d txs) t (Account a) = Inl OnlyItemSeller) \<and>
   (seller (idToMarketItem (run d txs) t) = Account a \<and>
    sold (idToMarketItem (run d txs) t) = False \<and>
    listingPrice (run d txs) \<le> balance (run d txs) \<longrightarrow>
      (\<exists>s' ls ow.
         cancelItemListing (run d txs) t (Account a) = Inr s' \<and>
         idToMarketItem s' t =
           (idToMarketItem (run d txs) t)
             \<lparr>seller := Address0, owner := Account a, sold := True\<rparr> \<and>
         itemsSold s' = itemsSold (run d txs) + 1 \<and>
         transfers s' =
           transfers (run d txs) @ [(marketOwner (run d txs), listingPrice (run d txs))] \<and>
         fetchItemsListed s' (Account a) = Inr ls \<and>
         t \<notin> set (map tokenId ls) \<and>
         fetchMyNFTs s' (Account a) = Inr ow \<and>
         idToMarketItem s' t \<in> set ow)) \<and>
   (seller (idToMarketItem s t) = c \<and> sold (idToMarketItem s t) = False \<and>
    balance s < listingPrice s \<longrightarrow>
      cancelItemListing s t c = Inl EtherTransferFailed)"
proof -
  have c: "consistent (run d txs)" by (rule consistent_run)
  show ?thesis
    using cancel_not_seller [of s t c] cancel_sold [OF c, of t a] cancel_listing [OF c, of t a]
      cancel_unfunded [of s t c]
    by blast
qed

text \<open>The four cases on the sample runs.\<close>

theorem cancel_effects_witness:
  "seller (idToMarketItem listed 1) \<noteq> Account 2 \<and>
   cancelItemListing listed 1 (Account 2) = Inl OnlyItemSeller \<and>
   sold (idToMarketItem bought 1) \<and>
   cancelItemListing bought 1 (Account 1) = Inl OnlyItemSeller \<and>
   seller (idToMarketItem listed 1) = Account 1 \<and>
   sold (idToMarketItem listed 1) = False \<and>
   listingPrice listed \<le> balance listed \<and>
   map_sum id (\<lambda>s'. (idToMarketItem s' 1, itemsSold s', transfers s',
                      fetchItemsListed s' (Account 1), fetchMyNFTs s' (Account 1)))
     (cancelItemListing listed 1 (Account 1)) =
   Inr (\<lparr>tokenId = 1, seller = Address0, owner = Account 1, price = 5000000000000000,
         sold = True\<rparr>,
        1, [(Account 0, 1000000000000000)], Inr [],
        Inr [\<lparr>tokenId = 1, seller = Address0, owner = Account 1, price = 5000000000000000,
              sold = True\<rparr>]) \<and>
   seller (idToMarketItem fee_raised 1) = Account 1 \<and>
   sold (idToMarketItem fee_raised 1) = False \<and>
   balance fee_raised < listingPrice fee_raised \<and>
   cancelItemListing fee_raised 1 (Account 1) = Inl EtherTransferFailed"
  using cancel_effects
    [where s = listed and t = 1 and c = "Account 2" and a = 1 and d = 0
       and txs = "[(1, CreateToken ''ipfs://a'' 5000000000000000 1000000000000000),
                   (2, CreateMarketSale 1 5000000000000000)]"]
    cancel_effects
    [where s = fee_raised and t = 1 and c = "Account 1" and a = 1 and d = 0
       and txs = "[(1, CreateToken ''ipfs://a'' 5000000000000000 1000000000000000)]"]
  by (simp add: sample_defs op_defs query_defs)

text \<open>
  The claim as the spec words it fails twice. After the deployer doubled the listing
  price, the contract holds the \<open>0.001 ether\<close> paid at the listing and owes
  \<open>0.002 ether\<close> on a cancellation: the seller's call on the active listing reverts.
  And a cancellation of the sold item reverts with the seller message, for its former
  seller as for its owner.
\<close>

theorem cancel_blocked_or_unauthorized:
  "seller (idToMarketItem fee_raised 1) = Account 1 \<and>
   sold (idToMarketItem fee_raised 1) = False \<and>
   balance fee_raised = 1000000000000000 \<and>
   listingPrice fee_raised = 2000000000000000 \<and>
   cancelItemListing fee_raised 1 (Account 1) = Inl EtherTransferFailed \<and>
   sold (idToMarketItem bought 1) = True \<and>
   cancelItemListing bought 1 (Account 1) = Inl OnlyItemSeller \<and>
   cancelItemListing bought 1 (Account 2) = Inl OnlyItemSeller"
  by (simp add: sample_defs op_defs)

section \<open>The order of the query results\<close>

text \<open>
  The two queries that count before they fill always return, with the matching records in
  ascending order of their identifiers.
\<close>

lemma owned_and_listed_ascending:
  "\<exists>ys zs.
     fetchMyNFTs (run d txs) c = Inr ys \<and>
     fetchItemsListed (run d txs) c = Inr zs \<and>
     ys = map (idToMarketItem (run d txs))
            (filter (\<lambda>i. owner (idToMarketItem (run d txs) i) = c) (ids (run d txs))) \<and>
     zs = map (idToMarketItem (run d txs))
            (filter (\<lambda>i. seller (idToMarketItem (run d txs) i) = c) (ids (run d txs))) \<and>
     sorted_wrt (<) (map tokenId ys) \<and>
     sorted_wrt (<) (map tokenId zs)"
proof -
  have c: "consistent (run d txs)" by (rule consistent_run)
  show ?thesis
    using ascending_matching [OF c]
    by (simp add: fetchMyNFTs_eq fetchItemsListed_eq) (simp add: matching_def ids_def)
qed

text \<open>
  Claim C10 fails on the contract for \<open>fetchMarketItems\<close>, by the purchase of a sold item
  (see C1). With the listing price set to 0, one item listed and bought twice,
  \<open>_itemsSold\<close> exceeds \<open>_tokenIds\<close> and the checked subtraction that sizes the result
  reverts: the query returns nothing. The two other queries return in that state.
\<close>

theorem active_listings_query_reverts:
  "fetchMarketItems free_bought_twice = Inl PanicArithmetic \<and>
   fetchMyNFTs free_bought_twice (Account 3) =
     Inr [\<lparr>tokenId = 1, seller = Address0, owner = Account 3, price = 5000000000000000,
           sold = True\<rparr>] \<and>
   fetchItemsListed free_bought_twice (Account 1) = Inr []"
  by (simp add: sample_defs op_defs query_defs)

section \<open>Listed by the caller\<close>

text \<open>
  Claim C8. In every state reached from the constructor and for every caller other than
  the zero address, \<open>fetchItemsListed\<close> returns, and every record it returns has the
  caller as \<open>seller\<close> and \<open>sold == false\<close>: a sale and a cancellation both reset
  \<open>seller\<close> to the zero address.
\<close>

theorem listed_by_caller_active:
  assumes "c \<noteq> Address0"
  shows "\<exists>xs. fetchItemsListed (run d txs) c = Inr xs \<and>
              (\<forall>m \<in> set xs. seller m = c \<and> sold m = False)"
proof -
  have cons: "consistent (run d txs)" by (rule consistent_run)
  have "seller m = c \<and> sold m = False"
    if "m \<in> set (matching (run d txs) (\<lambda>m. seller m = c) (tokenIds (run d txs)))" for m
  proof -
    from that obtain i where i: "1 \<le> i" "i \<le> tokenIds (run d txs)"
      and m: "m = idToMarketItem (run d txs) i" and s: "seller m = c"
      by (auto simp: matching_def)
    from consistent_item(3) [OF cons i] assms m s show ?thesis by auto
  qed
  then show ?thesis by (simp add: fetchItemsListed_eq)
qed

text \<open>After account 1 listed one item, the query run by account 1 returns that record.\<close>

theorem listed_by_caller_active_witness:
  "Account 1 \<noteq> Address0 \<and>
   fetchItemsListed
     (run 0 [(1, CreateToken ''ipfs://a'' 5000000000000000 1000000000000000)]) (Account 1) =
   Inr [\<lparr>tokenId = 1, seller = Account 1, owner = AddressThis, price = 5000000000000000,
         sold = False\<rparr>]"
  using listed_by_caller_active
    [of "Account 1" 0 "[(1, CreateToken ''ipfs://a'' 5000000000000000 1000000000000000)]"]
  by (simp add: run_def op_defs query_defs)

section \<open>The listing price\<close>

lemma perform_Inr_fields:
  assumes "perform s c call = Inr s'"
  shows "marketOwner s' = marketOwner s"
    and "listingPrice s' =
           (case call of UpdateListingPrice p v \<Rightarrow> p | _ \<Rightarrow> listingPrice s)"
proof -
  have "marketOwner s' = marketOwner s \<and>
        listingPrice s' =
          (case call of UpdateListingPrice p v \<Rightarrow> p | _ \<Rightarrow> listingPrice s)"
  proof (cases call)
    case (CreateToken uri p v)
    with assms obtain n where "createToken s uri p v c = Inr (s', n)"
      by (auto simp: map_sum_fst_Inr)
    from createToken_Inr(8,9) [OF this] CreateToken show ?thesis by simp
  next
    case (CreateMarketSale t v)
    with assms show ?thesis by (simp add: createMarketSale_Inr)
  next
    case (ResellToken t p v)
    with assms show ?thesis by (simp add: resellToken_Inr)
  next
    case (CancelItemListing t)
    with assms show ?thesis by (simp add: cancelItemListing_Inr)
  next
    case (UpdateListingPrice p v)
    with assms show ?thesis by (simp add: updateListingPrice_Inr)
  next
    case (Approve to t)
    with assms show ?thesis by (simp add: approve_Inr)
  next
    case (SetApprovalForAll operator approved)
    with assms show ?thesis by (simp add: setApprovalForAll_Inr)
  next
    case (TransferFrom "from" to t)
    with assms show ?thesis by (simp add: transferFrom_Inr)
  next
    case (SafeTransferFrom "from" to t)
    with assms have "transferFrom s from to t c = Inr s'"
      by (simp add: safeTransferFrom_Inr)
    from transferFrom_Inr(7,8) [OF this] SafeTransferFrom show ?thesis by simp
  qed
  then show "marketOwner s' = marketOwner s"
    and "listingPrice s' =
           (case call of UpdateListingPrice p v \<Rightarrow> p | _ \<Rightarrow> listingPrice s)"
    by simp_all
qed

lemma exec_marketOwner: "marketOwner (exec s tx) = marketOwner s"
  by (cases tx) (auto split: sum.splits dest: perform_Inr_fields(1))

lemma foldl_exec_marketOwner: "marketOwner (foldl exec s txs) = marketOwner s"
  by (induction txs arbitrary: s) (simp_all add: exec_marketOwner)

lemma exec_listingPrice:
  "listingPrice (exec s (a, call)) =
     (case call of
        UpdateListingPrice p v \<Rightarrow> if marketOwner s = Account a then p else listingPrice s
      | _ \<Rightarrow> listingPrice s)"
proof (cases "perform s (Account a) call")
  case (Inl e)
  then show ?thesis
    by (cases call) (auto simp: updateListingPrice_def receive_value_def Let_def split: if_splits)
next
  case (Inr s')
  from perform_Inr_fields(2) [OF Inr] Inr show ?thesis
    by (cases call) (auto dest: updateListingPrice_Inr(1))
qed

text \<open>
  Claim C9. \<open>updateListingPrice\<close> called by the contract's owner succeeds and sets the
  listing price; called by anybody else it reverts with "Only marketplace owner can update
  listing price". After any transaction the listing price is what it was, unless the
  transaction is an \<open>updateListingPrice\<close> sent by the owner. The owner never changes:
  it is the account that deployed the contract.
\<close>

theorem only_owner_updates_listing_price:
  "updateListingPrice s p v (marketOwner s) = Inr ((receive_value s v)\<lparr>listingPrice := p\<rparr>) \<and>
   (c \<noteq> marketOwner s \<longrightarrow> updateListingPrice s p v c = Inl OnlyMarketplaceOwner) \<and>
   listingPrice (exec s (a, call)) =
     (case call of
        UpdateListingPrice p' v' \<Rightarrow> if marketOwner s = Account a then p' else listingPrice s
      | _ \<Rightarrow> listingPrice s) \<and>
   marketOwner (exec s (a, call)) = marketOwner s \<and>
   marketOwner (run d txs) = Account d"
proof -
  have "updateListingPrice s p v (marketOwner s) = Inr ((receive_value s v)\<lparr>listingPrice := p\<rparr>)"
    by (simp add: updateListingPrice_def receive_value_def)
  moreover have "c \<noteq> marketOwner s \<longrightarrow> updateListingPrice s p v c = Inl OnlyMarketplaceOwner"
    by (auto simp: updateListingPrice_def receive_value_def)
  moreover have "marketOwner (run d txs) = Account d"
    by (simp add: run_def foldl_exec_marketOwner constructor_def)
  ultimately show ?thesis
    using exec_listingPrice [of s a call] exec_marketOwner [of s "(a, call)"] by blast
qed

text \<open>On the fresh contract, account 1 is refused and the deployer's update takes effect.\<close>

theorem only_owner_updates_listing_price_witness:
  "Account 1 \<noteq> marketOwner (constructor (Account 0)) \<and>
   updateListingPrice (constructor (Account 0)) 7 0 (Account 1) = Inl OnlyMarketplaceOwner \<and>
   listingPrice (exec (constructor (Account 0)) (0, UpdateListingPrice 7 0)) = 7 \<and>
   listingPrice (exec (constructor (Account 0)) (1, UpdateListingPrice 7 0)) = 1000000000000000"
  using only_owner_updates_listing_price [of "constructor (Account 0)" 7 0 "Account 1"]
  by (simp add: op_defs)

end
